theory Spec2Isabelle
  imports Complex_Main
begin

section \<open>Numeric values\<close>

text \<open>
  The pipeline computes on IEEE doubles (numpy \<^verbatim>\<open>float64\<close> scalars and arrays).
  A value is a real number, one of the two infinities, or not-a-number. Rounding,
  overflow and the sign of zero are not modelled: a finite result is the exact real.
  Arithmetic follows the numpy scalar rules: a division by zero is an infinity or
  not-a-number (with a RuntimeWarning), never an exception, and every comparison with
  not-a-number is false.
\<close>

datatype float64 = Fin real | PInf | NInf | NaN

fun is_nan :: "float64 \<Rightarrow> bool" where
  "is_nan NaN = True"
| "is_nan _ = False"

fun is_finite :: "float64 \<Rightarrow> bool" where
  "is_finite (Fin _) = True"
| "is_finite _ = False"

fun fneg :: "float64 \<Rightarrow> float64" where
  "fneg (Fin x) = Fin (- x)"
| "fneg PInf = NInf"
| "fneg NInf = PInf"
| "fneg NaN = NaN"

fun fadd :: "float64 \<Rightarrow> float64 \<Rightarrow> float64" where
  "fadd NaN _ = NaN"
| "fadd _ NaN = NaN"
| "fadd (Fin x) (Fin y) = Fin (x + y)"
| "fadd PInf NInf = NaN"
| "fadd NInf PInf = NaN"
| "fadd PInf _ = PInf"
| "fadd NInf _ = NInf"
| "fadd (Fin _) PInf = PInf"
| "fadd (Fin _) NInf = NInf"

definition fsub :: "float64 \<Rightarrow> float64 \<Rightarrow> float64" where
  "fsub a b = fadd a (fneg b)"

text \<open>The infinity with the sign of a finite factor; zero times infinity is not-a-number.\<close>

definition signed_inf :: "real \<Rightarrow> float64" where
  "signed_inf x = (if 0 < x then PInf else if x < 0 then NInf else NaN)"

fun fmul :: "float64 \<Rightarrow> float64 \<Rightarrow> float64" where
  "fmul NaN _ = NaN"
| "fmul _ NaN = NaN"
| "fmul (Fin x) (Fin y) = Fin (x * y)"
| "fmul (Fin x) PInf = signed_inf x"
| "fmul (Fin x) NInf = signed_inf (- x)"
| "fmul PInf (Fin y) = signed_inf y"
| "fmul NInf (Fin y) = signed_inf (- y)"
| "fmul PInf PInf = PInf"
| "fmul NInf NInf = PInf"
| "fmul PInf NInf = NInf"
| "fmul NInf PInf = NInf"

fun fdiv :: "float64 \<Rightarrow> float64 \<Rightarrow> float64" where
  "fdiv NaN _ = NaN"
| "fdiv _ NaN = NaN"
| "fdiv (Fin x) (Fin y) = (if y = 0 then signed_inf x else Fin (x / y))"
| "fdiv (Fin _) PInf = Fin 0"
| "fdiv (Fin _) NInf = Fin 0"
| "fdiv PInf (Fin y) = (if 0 \<le> y then PInf else NInf)"
| "fdiv NInf (Fin y) = (if 0 \<le> y then NInf else PInf)"
| "fdiv PInf _ = NaN"
| "fdiv NInf _ = NaN"

fun flt :: "float64 \<Rightarrow> float64 \<Rightarrow> bool" where
  "flt NaN _ = False"
| "flt _ NaN = False"
| "flt (Fin x) (Fin y) = (x < y)"
| "flt _ NInf = False"
| "flt PInf _ = False"
| "flt NInf _ = True"
| "flt (Fin _) PInf = True"

fun fle :: "float64 \<Rightarrow> float64 \<Rightarrow> bool" where
  "fle NaN _ = False"
| "fle _ NaN = False"
| "fle (Fin x) (Fin y) = (x \<le> y)"
| "fle NInf _ = True"
| "fle _ PInf = True"
| "fle PInf _ = False"
| "fle (Fin _) NInf = False"

definition fgt :: "float64 \<Rightarrow> float64 \<Rightarrow> bool" where
  "fgt a b = flt b a"

fun fabs :: "float64 \<Rightarrow> float64" where
  "fabs (Fin x) = Fin \<bar>x\<bar>"
| "fabs PInf = PInf"
| "fabs NInf = PInf"
| "fabs NaN = NaN"

text \<open>
  Python's builtin \<^verbatim>\<open>max(a, b)\<close> keeps its first argument unless the second compares
  greater, so a not-a-number second argument is dropped and a not-a-number first
  argument is kept.
\<close>

definition py_max :: "float64 \<Rightarrow> float64 \<Rightarrow> float64" where
  "py_max a b = (if fgt b a then b else a)"

section \<open>RD7: damping factor and linewidths\<close>

text \<open>
  The warning and fix texts of \<^verbatim>\<open>rd7_damping_linewidth\<close>, in the order of the source:
  the three validation messages, then the three plausibility messages.
\<close>

datatype rd7_warning =
    Tau_non_positive
  | F0_invalid
  | Q_invalid
  | Df_tau_extremely_small
  | Df_tau_very_large
  | Linewidth_mismatch

datatype rd7_fix =
    Check_RD4_fit
  | Check_RD5_crossings
  | Check_RD4_and_RD5
  | Check_RD3_window
  | Check_RD1_slicing
  | Check_Q_and_f0

record rd7_result =
  alpha :: float64
  df_tau :: float64
  df_Q :: float64
  warn :: "rd7_warning list"
  fix_list :: "rd7_fix list"

definition rd7_invalid :: "rd7_warning \<Rightarrow> rd7_fix \<Rightarrow> rd7_result" where
  "rd7_invalid w f = \<lparr>alpha = NaN, df_tau = NaN, df_Q = NaN, warn = [w], fix_list = [f]\<rparr>"

text \<open>The relative disagreement of the two linewidths, as the source writes it.\<close>

definition rel_mismatch :: "float64 \<Rightarrow> float64 \<Rightarrow> float64" where
  "rel_mismatch dft dfq = fdiv (fabs (fsub dft dfq)) (py_max dft dfq)"

definition rd7_compute :: "float64 \<Rightarrow> float64 \<Rightarrow> float64 \<Rightarrow> rd7_result" where
  "rd7_compute tau f0 q =
     (let a = fdiv (Fin 1) tau;
          dft = fdiv (Fin 1) (fmul (Fin (2 * pi)) tau);
          dfq = fdiv f0 q;
          d1 = (if flt dft (Fin (1 / 10))
                then [(Df_tau_extremely_small, Check_RD3_window)] else []);
          d2 = (if fgt dft (Fin 100000)
                then [(Df_tau_very_large, Check_RD1_slicing)] else []);
          d3 = (if fgt (rel_mismatch dft dfq) (Fin (3 / 10))
                then [(Linewidth_mismatch, Check_Q_and_f0)] else []);
          ds = d1 @ d2 @ d3
      in \<lparr>alpha = a, df_tau = dft, df_Q = dfq, warn = map fst ds, fix_list = map snd ds\<rparr>)"

text \<open>
  An argument may be \<^verbatim>\<open>None\<close>. The validation tests \<^verbatim>\<open>x is None or x <= 0\<close> in the
  order \<open>tau_s\<close>, \<open>f0_hz\<close>, \<open>Q\<close> and returns at the first that holds.
\<close>

definition rd7_damping_linewidth ::
  "float64 option \<Rightarrow> float64 option \<Rightarrow> float64 option \<Rightarrow> rd7_result" where
  "rd7_damping_linewidth tau_s f0_hz Q =
     (case tau_s of
        None \<Rightarrow> rd7_invalid Tau_non_positive Check_RD4_fit
      | Some tau \<Rightarrow>
          if fle tau (Fin 0) then rd7_invalid Tau_non_positive Check_RD4_fit
          else (case f0_hz of
             None \<Rightarrow> rd7_invalid F0_invalid Check_RD5_crossings
           | Some f0 \<Rightarrow>
               if fle f0 (Fin 0) then rd7_invalid F0_invalid Check_RD5_crossings
               else (case Q of
                  None \<Rightarrow> rd7_invalid Q_invalid Check_RD4_and_RD5
                | Some q \<Rightarrow>
                    if fle q (Fin 0) then rd7_invalid Q_invalid Check_RD4_and_RD5
                    else rd7_compute tau f0 q)))"

text \<open>The driver recombines the quality factor as \<^verbatim>\<open>math.pi * f0_relax_hz * tau_s\<close>.\<close>

definition Q_final :: "float64 \<Rightarrow> float64 \<Rightarrow> float64" where
  "Q_final f0_relax_hz tau_s = fmul (fmul (Fin pi) f0_relax_hz) tau_s"

section \<open>Array helpers\<close>

text \<open>The exceptions the pipeline can raise, as values.\<close>

datatype py_error = TypeError | ValueError | IndexError | ZeroDivisionError | OverflowError

text \<open>
  \<^verbatim>\<open>np.mean\<close>, \<^verbatim>\<open>np.std\<close> (the population standard deviation, the root of the mean of
  \<^verbatim>\<open>abs(x - mean) ** 2\<close>) and \<^verbatim>\<open>np.max\<close> on an array of finite values. \<^verbatim>\<open>np.max\<close> raises
  on an empty array; the callers below test for emptiness before they use it.
\<close>

definition mean :: "real list \<Rightarrow> real" where
  "mean xs = sum_list xs / real (length xs)"

definition variance :: "real list \<Rightarrow> real" where
  "variance xs = mean (map (\<lambda>v. \<bar>v - mean xs\<bar> ^ 2) xs)"

definition std :: "real list \<Rightarrow> real" where
  "std xs = sqrt (variance xs)"

definition list_max :: "real list \<Rightarrow> real" where
  "list_max xs = fold max (tl xs) (hd xs)"

text \<open>The same reductions on arrays that may hold infinities and not-a-number.\<close>

definition fsum :: "float64 list \<Rightarrow> float64" where
  "fsum xs = foldr fadd xs (Fin 0)"

definition fmean :: "float64 list \<Rightarrow> float64" where
  "fmean xs = fdiv (fsum xs) (Fin (real (length xs)))"

fun fsqrt :: "float64 \<Rightarrow> float64" where
  "fsqrt (Fin x) = (if x < 0 then NaN else Fin (sqrt x))"
| "fsqrt PInf = PInf"
| "fsqrt NInf = NaN"
| "fsqrt NaN = NaN"

definition fsquare :: "float64 \<Rightarrow> float64" where
  "fsquare v = fmul v v"

definition fstd :: "float64 list \<Rightarrow> float64" where
  "fstd xs = fsqrt (fmean (map (\<lambda>v. fsquare (fabs (fsub v (fmean xs)))) xs))"

text \<open>\<^verbatim>\<open>np.diff\<close>: the differences of consecutive elements.\<close>

definition fdiff :: "float64 list \<Rightarrow> float64 list" where
  "fdiff xs = map (\<lambda>(a, b). fsub b a) (zip xs (tl xs))"

text \<open>\<^verbatim>\<open>int(x)\<close> on a float truncates towards zero.\<close>

definition trunc :: "real \<Rightarrow> int" where
  "trunc r = (if 0 \<le> r then \<lfloor>r\<rfloor> else \<lceil>r\<rceil>)"

section \<open>RD2: DC removal and normalisation\<close>

datatype rd2_warning = DC_offset_large | Amplitude_small | Signal_flat | Zoom_too_small

record rd2_result =
  x0_relax :: "real list"
  x1_relax :: "real list"
  dc_offset :: real
  peak :: real
  norm_flag :: bool
  rd2_warnings :: "rd2_warning list"

text \<open>
  The function returns \<^verbatim>\<open>(x0_relax, x1_relax)\<close>; the record also keeps what it prints:
  the measured offset and peak, the normalisation flag and the warnings. On an empty
  array \<^verbatim>\<open>np.max\<close> raises ValueError. The plot is not modelled.
\<close>

definition rd2_clean_quick_look ::
  "real list \<Rightarrow> real \<Rightarrow> real \<Rightarrow> bool \<Rightarrow> py_error + rd2_result" where
  "rd2_clean_quick_look x_relax fs zoom_ms do_norm =
     (if x_relax = [] then Inl ValueError
      else
        let dc = mean x_relax;
            x0 = map (\<lambda>v. v - dc) x_relax;
            w1 = (if \<bar>dc\<bar> > 5 / 100 * list_max (map abs x_relax)
                  then [DC_offset_large] else []);
            pk = list_max (map abs x0);
            nf = (do_norm \<and> pk > 0);
            x1 = (if nf then map (\<lambda>v. v / pk) x0 else x0);
            w2 = (if pk < 1 / 10000 then [Amplitude_small] else []);
            w3 = (if std x1 < 1 / 1000 then [Signal_flat] else []);
            zoom_N = trunc ((zoom_ms * (1 / 1000)) * fs);
            w4 = (if zoom_N < 5 then [Zoom_too_small] else [])
        in Inr \<lparr>x0_relax = x0, x1_relax = x1, dc_offset = dc, peak = pk,
                 norm_flag = nf, rd2_warnings = w1 @ w2 @ w3 @ w4\<rparr>)"

section \<open>Python scalar operations\<close>

text \<open>
  The sample rate and the frequency guess are Python numbers (the driver's constants).
  Their true division raises ZeroDivisionError on a zero divisor. The floor division of
  a float by a non-zero finite number is the floor of the quotient, and not-a-number when
  the dividend is infinite or not-a-number. \<^verbatim>\<open>int(x)\<close> truncates a finite float and raises
  OverflowError on an infinity and ValueError on not-a-number.
\<close>

definition py_truediv :: "float64 \<Rightarrow> float64 \<Rightarrow> py_error + float64" where
  "py_truediv a b = (if b = Fin 0 then Inl ZeroDivisionError else Inr (fdiv a b))"

definition py_floordiv :: "float64 \<Rightarrow> real \<Rightarrow> float64" where
  "py_floordiv a d = (case a of Fin x \<Rightarrow> Fin (of_int \<lfloor>x / d\<rfloor>) | _ \<Rightarrow> NaN)"

definition py_int :: "float64 \<Rightarrow> py_error + int" where
  "py_int a = (case a of Fin x \<Rightarrow> Inr (trunc x) | NaN \<Rightarrow> Inl ValueError
               | _ \<Rightarrow> Inl OverflowError)"

text \<open>
  Array subscripts are Python integers. A subscript below zero is taken relative to the
  length; one that still falls outside raises IndexError. The bounds of a slice are
  clamped to the array instead.
\<close>

definition py_index :: "'a list \<Rightarrow> int \<Rightarrow> py_error + 'a" where
  "py_index xs i =
     (if 0 \<le> i \<and> i < int (length xs) then Inr (xs ! nat i)
      else if i < 0 \<and> - int (length xs) \<le> i then Inr (xs ! nat (int (length xs) + i))
      else Inl IndexError)"

definition slice_bound :: "nat \<Rightarrow> int \<Rightarrow> nat" where
  "slice_bound n i = (if i < 0 then nat (max 0 (int n + i)) else min n (nat i))"

definition py_slice_from :: "'a list \<Rightarrow> int \<Rightarrow> 'a list" where
  "py_slice_from xs i = drop (slice_bound (length xs) i) xs"

definition py_slice :: "'a list \<Rightarrow> int \<Rightarrow> int \<Rightarrow> 'a list" where
  "py_slice xs i j =
     (let a = slice_bound (length xs) i; b = slice_bound (length xs) j
      in take (b - a) (drop a xs))"

section \<open>RD3: envelope\<close>

datatype rd3_warning = Envelope_flat | Window_very_small | Window_too_large

text \<open>The window size \<^verbatim>\<open>M = int(max(5, samples_per_period // 2))\<close>.\<close>

definition rd3_window :: "float64 \<Rightarrow> float64 \<Rightarrow> py_error + int" where
  "rd3_window fs f0 =
     (case py_truediv fs f0 of
        Inl e \<Rightarrow> Inl e
      | Inr samples_per_period \<Rightarrow>
          let h = py_floordiv samples_per_period 2
          in if fgt h (Fin 5) then py_int h else Inr 5)"

text \<open>
  \<^verbatim>\<open>np.convolve(a, v, mode="same")\<close>. Both arrays must be non-empty (ValueError). The
  longer array becomes the first operand, the shorter one is reversed, and the two are
  correlated: with \<open>n2\<close> the length of the shorter array, output \<open>i\<close> is the sum over
  \<open>k < n2\<close> of the first operand at \<open>i - n2 div 2 + k\<close> (zero outside the array) times
  the reversed second operand at \<open>k\<close>. The output is as long as the longer array.
\<close>

definition zext :: "real list \<Rightarrow> int \<Rightarrow> real" where
  "zext xs i = (if 0 \<le> i \<and> i < int (length xs) then xs ! nat i else 0)"

definition correlate_same :: "real list \<Rightarrow> real list \<Rightarrow> real list" where
  "correlate_same ap1 ap2 =
     map (\<lambda>i. \<Sum>k\<leftarrow>[0..<length ap2].
                 zext ap1 (int i - int (length ap2 div 2) + int k) * ap2 ! k)
       [0..<length ap1]"

definition np_convolve_same :: "real list \<Rightarrow> real list \<Rightarrow> py_error + real list" where
  "np_convolve_same a v =
     (if a = [] \<or> v = [] then Inl ValueError
      else if length v > length a then Inr (correlate_same v (rev a))
      else Inr (correlate_same a (rev v)))"

definition rd3_envelope ::
  "real list \<Rightarrow> float64 \<Rightarrow> float64 \<Rightarrow> py_error + real list \<times> rd3_warning list" where
  "rd3_envelope x1 fs f0 =
     (let env_abs = map abs x1;
          w1 = (if x1 \<noteq> [] \<and> std env_abs < 1 / 1000 then [Envelope_flat] else [])
      in case rd3_window fs f0 of
           Inl e \<Rightarrow> Inl e
         | Inr M \<Rightarrow>
             let w2 = (if M < 5 then [Window_very_small] else []);
                 w3 = (if M > int (length env_abs) div 4 then [Window_too_large] else []);
                 kernel = replicate (nat M) (1 / real_of_int M)
             in case np_convolve_same env_abs kernel of
                  Inl e \<Rightarrow> Inl e
                | Inr env \<Rightarrow> Inr (env, w1 @ w2 @ w3))"

text \<open>
  The mean of the squares of an array (its second moment about zero), used to compare
  the envelope with the rectified signal.
\<close>

definition mean_square :: "real list \<Rightarrow> real" where
  "mean_square xs = mean (map (\<lambda>v. v\<^sup>2) xs)"

section \<open>RD5: frequency from zero-crossings\<close>

datatype rd5_warning =
    Not_enough_crossings
  | Irregular_intervals
  | Too_few_intervals
  | F0_out_of_range

record rd5_result =
  f0_relax_hz :: float64
  n_cycles_used :: nat
  rd5_warnings :: "rd5_warning list"

text \<open>\<^verbatim>\<open>np.signbit\<close>: true on a negative sample.\<close>

definition signbit :: "real \<Rightarrow> bool" where
  "signbit v = (v < 0)"

text \<open>\<^verbatim>\<open>np.where(s[:-1] != s[1:])[0]\<close>: the indices k with a sign change from k to k + 1.\<close>

definition sign_changes :: "real list \<Rightarrow> nat list" where
  "sign_changes x =
     filter (\<lambda>k. signbit (x ! k) \<noteq> signbit (x ! Suc k)) [0..<length x - 1]"

definition crossing_time :: "real list \<Rightarrow> real \<Rightarrow> nat \<Rightarrow> float64" where
  "crossing_time x fs k =
     (let x0 = x ! k; x1 = x ! Suc k;
          frac = fdiv (Fin x0) (Fin (x0 - x1 + 1 / 10 ^ 12))
      in fdiv (fadd (Fin (real k)) frac) (Fin fs))"

definition crossing_times :: "real list \<Rightarrow> real \<Rightarrow> float64 list" where
  "crossing_times x fs = map (crossing_time x fs) (sign_changes x)"

definition rd5_freq_from_relax :: "real list \<Rightarrow> real \<Rightarrow> int \<Rightarrow> rd5_result" where
  "rd5_freq_from_relax x fs min_crossings =
     (let idx = sign_changes x in
      if int (length idx) < min_crossings
      then \<lparr>f0_relax_hz = NaN, n_cycles_used = 0, rd5_warnings = [Not_enough_crossings]\<rparr>
      else
        let zt = crossing_times x fs;
            dt_test = fdiff zt;
            w1 = (if fgt (fstd dt_test) (fmul (Fin (1 / 10)) (fmean dt_test))
                  then [Irregular_intervals] else []);
            dt = fdiff zt
        in if length dt < 2
           then \<lparr>f0_relax_hz = NaN, n_cycles_used = 0,
                  rd5_warnings = w1 @ [Too_few_intervals]\<rparr>
           else
             let T_est = fmul (Fin 2) (fmean dt);
                 f0_relax = fdiv (Fin 1) T_est;
                 w2 = (if flt f0_relax (Fin 100000) \<or> fgt f0_relax (Fin 50000000)
                       then [F0_out_of_range] else [])
             in \<lparr>f0_relax_hz = f0_relax, n_cycles_used = length dt + 1,
                  rd5_warnings = w1 @ w2\<rparr>)"

section \<open>RD6: appending the results to the CSV store\<close>

datatype rd6_warning =
    F0_is_NaN
  | Tau_not_valid
  | Q_not_valid
  | High_RMSE
  | F0_outside_range
  | Q_extremely_low
  | Df_tau_small
  | Df_tau_large
  | Df_Q_small
  | Df_Q_large

text \<open>
  A cell of a CSV row: a text, a number, or the empty cell that \<^verbatim>\<open>csv.writer\<close> writes
  for \<^verbatim>\<open>None\<close>. A file is its list of rows; the file system maps a path to its file,
  and a path that is not in the map does not exist.
\<close>

datatype cell = Text String.literal | Num float64 | Blank

type_synonym csv_file = "cell list list"

type_synonym files = "String.literal \<rightharpoonup> csv_file"

definition opt_cell :: "float64 option \<Rightarrow> cell" where
  "opt_cell v = (case v of None \<Rightarrow> Blank | Some x \<Rightarrow> Num x)"

definition base_header :: "cell list" where
  "base_header = map Text [STR ''timestamp'', STR ''f0_hz'', STR ''tau_s'', STR ''Q'',
     STR ''fit_rmse'', STR ''alpha'', STR ''df_tau'', STR ''df_Q'']"

text \<open>\<^verbatim>\<open>p.open("a")\<close> followed by \<^verbatim>\<open>writerow\<close> calls: the rows are added at the end.\<close>

definition append_rows :: "files \<Rightarrow> String.literal \<Rightarrow> cell list list \<Rightarrow> files" where
  "append_rows fsys path rows =
     fsys(path \<mapsto> (case fsys path of None \<Rightarrow> [] | Some old \<Rightarrow> old) @ rows)"

definition linewidth_warnings ::
  "float64 option \<Rightarrow> rd6_warning \<Rightarrow> rd6_warning \<Rightarrow> rd6_warning list" where
  "linewidth_warnings df small large =
     (case df of
        None \<Rightarrow> []
      | Some d \<Rightarrow> (if flt d (Fin (1 / 10)) then [small] else [])
                  @ (if fgt d (Fin 100000) then [large] else []))"

text \<open>
  The function returns nothing; its effect is the file system after the call, and the
  model also returns the warnings it prints. \<open>now\<close> is the timestamp of the call and
  \<open>extras\<close> the dictionary of additional columns (\<^verbatim>\<open>None\<close> is the empty dictionary). A
  \<^verbatim>\<open>None\<close> for \<open>tau_s\<close>, \<open>Q\<close> or \<open>rmse\<close> raises TypeError at its first comparison.
\<close>

definition rd6_save_results ::
  "files \<Rightarrow> String.literal \<Rightarrow> float64 option \<Rightarrow> float64 option \<Rightarrow> float64 option \<Rightarrow>
   float64 option \<Rightarrow> float64 option \<Rightarrow> float64 option \<Rightarrow> float64 option \<Rightarrow>
   String.literal \<Rightarrow> (String.literal \<rightharpoonup> cell) \<Rightarrow> py_error + rd6_warning list \<times> files" where
  "rd6_save_results fsys now f0_hz tau_s Q rmse alpha_v df_tau_v df_Q_v csv_path extras =
     (case f0_hz of
        None \<Rightarrow> Inr ([F0_is_NaN], fsys)
      | Some f0 \<Rightarrow>
      if is_nan f0 then Inr ([F0_is_NaN], fsys)
      else (case tau_s of None \<Rightarrow> Inl TypeError | Some tau \<Rightarrow>
      if fle tau (Fin 0) then Inr ([Tau_not_valid], fsys)
      else (case Q of None \<Rightarrow> Inl TypeError | Some q \<Rightarrow>
      if fle q (Fin 0) then Inr ([Q_not_valid], fsys)
      else (case rmse of None \<Rightarrow> Inl TypeError | Some e \<Rightarrow>
        let w1 = (if fgt e (Fin (5 / 100)) then [High_RMSE] else []);
            w2 = (if flt f0 (Fin 100000) \<or> fgt f0 (Fin 50000000)
                  then [F0_outside_range] else []);
            w3 = (if flt q (Fin 50) then [Q_extremely_low] else []);
            w4 = linewidth_warnings df_tau_v Df_tau_small Df_tau_large;
            w5 = linewidth_warnings df_Q_v Df_Q_small Df_Q_large;
            base_row = [Text now, Num f0, Num tau, Num q, Num e,
                        opt_cell alpha_v, opt_cell df_tau_v, opt_cell df_Q_v];
            extra_keys = sorted_list_of_set (dom extras);
            extra_vals = map (\<lambda>k. case extras k of None \<Rightarrow> Blank | Some v \<Rightarrow> v) extra_keys;
            header = base_header @ map Text extra_keys;
            row = base_row @ extra_vals;
            write_header = (fsys csv_path = None);
            rows = (if write_header then [header] else []) @ [row]
        in Inr (w1 @ w2 @ w3 @ w4 @ w5, append_rows fsys csv_path rows)))))"

section \<open>RD4: exponential fit\<close>

datatype rd4_warning = Guard_too_large | Short_fit_region | Poor_fit | Negative_tau

record rd4_result =
  tau_s :: float64
  Q_env :: float64
  fit_rmse :: float64
  fit_slice :: "int \<times> int"
  rd4_warnings :: "rd4_warning list"

text \<open>\<^verbatim>\<open>np.where(values <= threshold)[0]\<close>, first element: the first offset at or below.\<close>

fun first_below :: "real \<Rightarrow> real list \<Rightarrow> nat option" where
  "first_below thr [] = None"
| "first_below thr (v # vs) =
     (if v \<le> thr then Some 0 else map_option Suc (first_below thr vs))"

text \<open>\<^verbatim>\<open>np.log\<close> and \<^verbatim>\<open>np.exp\<close>.\<close>

definition flog :: "real \<Rightarrow> float64" where
  "flog v = (if v < 0 then NaN else if v = 0 then NInf else Fin (ln v))"

fun fexp :: "float64 \<Rightarrow> float64" where
  "fexp (Fin x) = Fin (exp x)"
| "fexp PInf = PInf"
| "fexp NInf = Fin 0"
| "fexp NaN = NaN"

fun fin_val :: "float64 \<Rightarrow> real" where
  "fin_val (Fin x) = x"
| "fin_val _ = 0"

text \<open>
  \<^verbatim>\<open>np.polyfit(t, y, 1)\<close> returns the slope and the intercept of the least-squares line.
  It raises TypeError on empty data. When all values are finite and the abscissae are
  not all equal, the line is unique and given by the normal equations. For the other
  systems (a single point, equal abscissae, infinite or not-a-number data) the answer
  is whatever the library's solver does with a rank-deficient or non-finite system; it
  is the parameter \<open>degenerate\<close>.
\<close>

definition polyfit1 ::
  "(float64 list \<Rightarrow> float64 list \<Rightarrow> py_error + float64 \<times> float64) \<Rightarrow>
   float64 list \<Rightarrow> float64 list \<Rightarrow> py_error + float64 \<times> float64" where
  "polyfit1 degenerate ts ys =
     (if ts = [] then Inl TypeError
      else if list_all is_finite ts \<and> list_all is_finite ys then
        let t = map fin_val ts; y = map fin_val ys; n = real (length t);
            st = sum_list t; sy = sum_list y;
            stt = (\<Sum>v\<leftarrow>t. v * v); sty = (\<Sum>(u, v)\<leftarrow>zip t y. u * v);
            d = n * stt - st * st
        in if d = 0 then degenerate ts ys
           else let b = (n * sty - st * sy) / d; a = (sy - b * st) / n
                in Inr (Fin b, Fin a)
      else degenerate ts ys)"

text \<open>
  Part RD4-A of \<^verbatim>\<open>rd4_fit_decay\<close>: the choice of the fit window. It gives the start
  \<open>i0\<close>, the end \<open>i1\<close> and the warning printed when the guard interval leaves nothing
  to fit.
\<close>

definition rd4_choose_window ::
  "real list \<Rightarrow> float64 \<Rightarrow> float64 \<Rightarrow> int \<Rightarrow> real \<Rightarrow>
   py_error + int \<times> int \<times> rd4_warning list" where
  "rd4_choose_window env fs f0 guard_periods drop_frac =
     (case py_truediv fs f0 of Inl e \<Rightarrow> Inl e | Inr q \<Rightarrow>
      case py_int q of Inl e \<Rightarrow> Inl e | Inr samples_per_period \<Rightarrow>
      let n = int (length env);
          guarded = guard_periods * samples_per_period;
          w1 = (if guarded \<ge> n then [Guard_too_large] else []);
          i0 = (if guarded \<ge> n then 0 else guarded)
      in case (if i0 < n then py_index env i0 else py_index env 0) of
           Inl e \<Rightarrow> Inl e
         | Inr env0 \<Rightarrow>
             let i1 = (case first_below (env0 * drop_frac) (py_slice_from env i0) of
                         Some k \<Rightarrow> i0 + int k
                       | None \<Rightarrow> n)
             in Inr (i0, i1, w1))"

text \<open>
  Parts RD4-A (from the time axis on), RD4-B and RD4-C: the log-linear fit on the window.
  The progress line printed after the window is chosen reads \<^verbatim>\<open>t_fit[0]\<close> and
  \<^verbatim>\<open>t_fit[-1]\<close>, which raises IndexError on an empty window. The plot is not modelled.
\<close>

definition rd4_log_linear_fit ::
  "(float64 list \<Rightarrow> float64 list \<Rightarrow> py_error + float64 \<times> float64) \<Rightarrow>
   real list \<Rightarrow> float64 \<Rightarrow> float64 \<Rightarrow> int \<Rightarrow> int \<Rightarrow> rd4_warning list \<Rightarrow>
   py_error + rd4_result" where
  "rd4_log_linear_fit degenerate env fs f0 i0 i1 w1 =
     (let t = map (\<lambda>k. fdiv (Fin (real k)) fs) [0..<length env];
          t_fit = py_slice t i0 i1;
          y_fit = py_slice env i0 i1;
          w2 = (if length y_fit < 20 then [Short_fit_region] else [])
      in if t_fit = [] then Inl IndexError
         else
      let ln_y = map (\<lambda>v. flog (v + 1 / 10 ^ 12)) y_fit
      in case polyfit1 degenerate t_fit ln_y of
           Inl e \<Rightarrow> Inl e
         | Inr (b, a) \<Rightarrow>
      let tau = fdiv (Fin (- 1)) b;
          Qe = fmul (fmul (Fin pi) f0) tau;
          y_pred = map (\<lambda>u. fexp (fadd a (fmul b u))) t_fit;
          rmse = fsqrt (fmean (map (\<lambda>(y, p). fsquare (fsub (Fin y) p)) (zip y_fit y_pred)));
          w3 = (if fgt rmse (Fin (5 / 100)) then [Poor_fit] else []);
          w4 = (if flt tau (Fin 0) then [Negative_tau] else [])
      in Inr \<lparr>tau_s = tau, Q_env = Qe, fit_rmse = rmse, fit_slice = (i0, i1),
               rd4_warnings = w1 @ w2 @ w3 @ w4\<rparr>)"

text \<open>
  The function returns \<^verbatim>\<open>(tau_s, Q_env, fit_rmse, (i0, i1))\<close>; the record also keeps
  the warnings it prints.
\<close>

definition rd4_fit_decay ::
  "(float64 list \<Rightarrow> float64 list \<Rightarrow> py_error + float64 \<times> float64) \<Rightarrow>
   real list \<Rightarrow> float64 \<Rightarrow> float64 \<Rightarrow> int \<Rightarrow> real \<Rightarrow> py_error + rd4_result" where
  "rd4_fit_decay degenerate env fs f0 guard_periods drop_frac =
     (case rd4_choose_window env fs f0 guard_periods drop_frac of
        Inl e \<Rightarrow> Inl e
      | Inr (i0, i1, w1) \<Rightarrow> rd4_log_linear_fit degenerate env fs f0 i0 i1 w1)"

subsection \<open>The fit window and the slope as the specification words them\<close>

text \<open>
  The start of the fit window: the guard periods times the floor of the samples per
  period, or zero when that is not below the length of the envelope.
\<close>

definition spec_i0 :: "real list \<Rightarrow> real \<Rightarrow> real \<Rightarrow> int \<Rightarrow> int" where
  "spec_i0 env fs f0_guess guard_periods =
     (let i0 = guard_periods * \<lfloor>fs / f0_guess\<rfloor>
      in if i0 \<ge> int (length env) then 0 else i0)"

text \<open>
  The end of the fit window: the first index from the start on where the envelope is at
  or below the drop fraction of its value at the start, or the length of the envelope
  when there is no such index.
\<close>

definition spec_i1 :: "real list \<Rightarrow> int \<Rightarrow> real \<Rightarrow> int" where
  "spec_i1 env i0 drop_frac =
     (let rest = drop (nat i0) env; level = env ! nat i0 * drop_frac
      in if \<exists>v\<in>set rest. v \<le> level
         then i0 + int (length (takeWhile (\<lambda>v. \<not> v \<le> level) rest))
         else int (length env))"




section \<open>Properties of RD7\<close>








text \<open>
  C1. The validation of RD7 compares with \<^verbatim>\<open><= 0\<close> only, and every comparison with
  not-a-number is false. With a valid decay constant of 100 microseconds and the
  not-a-number frequency that RD5 returns on failure (so that the driver's recombined
  quality factor is not-a-number too), no validation branch is taken: the damping factor
  and the linewidth from the decay constant are ordinary numbers and the lists of
  warnings and fixes are empty.
\<close>

theorem rd7_nan_frequency_passes_validation:
  "rd7_damping_linewidth (Some (Fin (1 / 10000))) (Some NaN)
       (Some (Q_final NaN (Fin (1 / 10000))))
   = \<lparr>alpha = Fin 10000, df_tau = Fin (10000 / (2 * pi)), df_Q = NaN,
      warn = [], fix_list = []\<rparr>"
proof -
  have a: "\<not> 10000 / (2 * pi) < 1 / 10"
    using pi_ge_two pi_less_4 by (simp add: field_simps)
  have b: "\<not> 100000 < 10000 / (2 * pi)"
    using pi_ge_two pi_less_4 by (simp add: field_simps)
  show ?thesis
    using a b
    by (simp add: rd7_damping_linewidth_def rd7_compute_def Q_final_def rel_mismatch_def
        py_max_def fgt_def fsub_def Let_def)
qed



section \<open>Properties of RD2\<close>

text \<open>
  C9. A non-empty signal whose mean is zero and whose largest magnitude is one is a fixed
  point of the conditioner with normalisation switched on: both returned signals are the
  input, the measured offset is zero, the measured peak is one, and the signal is
  reported as normalised.
\<close>

theorem rd2_conditioned_signal_is_fixed_point:
  assumes "x \<noteq> []" "mean x = 0" "list_max (map abs x) = 1"
  shows "\<exists>r. rd2_clean_quick_look x fs zoom_ms True = Inr r \<and> x0_relax r = x
           \<and> x1_relax r = x \<and> dc_offset r = 0 \<and> peak r = 1 \<and> norm_flag r"
proof -
  have x0: "map (\<lambda>v. v - mean x) x = x" using assms(2) by simp
  show ?thesis
    using assms(1,3) unfolding rd2_clean_quick_look_def Let_def x0
    by (simp add: assms(2))
qed

theorem rd2_conditioned_signal_is_fixed_point_witness:
  "[1, -1] \<noteq> ([]::real list) \<and> mean [1, -1] = 0 \<and> list_max (map abs [1, -1]) = 1 \<and>
   (\<exists>r. rd2_clean_quick_look [1, -1] 125000000 (1 / 5) True = Inr r \<and> x1_relax r = [1, -1])"
  using rd2_conditioned_signal_is_fixed_point [of "[1, -1]" 125000000 "1 / 5"]
  by (auto simp: mean_def list_max_def)

section \<open>Properties of RD5\<close>

lemma length_fdiff: "length (fdiff xs) = length xs - 1"
  by (simp add: fdiff_def)

lemma length_crossing_times: "length (crossing_times x fs) = length (sign_changes x)"
  by (simp add: crossing_times_def)

text \<open>
  C6. When fewer than \<open>min_crossings\<close> sign changes are found, or fewer than two
  intervals between crossing times remain, the estimator returns not-a-number as the
  frequency and zero as the number of cycles used.
\<close>

theorem rd5_too_few_crossings_gives_sentinel:
  "int (length (sign_changes x)) < min_crossings \<or> length (fdiff (crossing_times x fs)) < 2
   \<Longrightarrow> f0_relax_hz (rd5_freq_from_relax x fs min_crossings) = NaN
     \<and> n_cycles_used (rd5_freq_from_relax x fs min_crossings) = 0"
  by (auto simp: rd5_freq_from_relax_def Let_def)

theorem rd5_too_few_crossings_gives_sentinel_witness:
  "(int (length (sign_changes [1, -1, 1])) < 6
      \<or> length (fdiff (crossing_times [1, -1, 1] 1)) < 2)
   \<and> f0_relax_hz (rd5_freq_from_relax [1, -1, 1] 1 6) = NaN
   \<and> n_cycles_used (rd5_freq_from_relax [1, -1, 1] 1 6) = 0"
  using rd5_too_few_crossings_gives_sentinel [of "[1, -1, 1]" 6 1]
  by (simp add: sign_changes_def signbit_def upt_rec)

section \<open>Properties of RD6\<close>

text \<open>
  C5. The validation of RD6 tests the frequency for not-a-number and the decay constant
  and quality factor with \<^verbatim>\<open><= 0\<close> only. A call with a valid frequency and a
  not-a-number decay constant and quality factor, on a store that does not exist yet,
  prints no warning and writes the header and one record holding the not-a-number
  fields.
\<close>

theorem rd6_nan_decay_constant_is_stored:
  "rd6_save_results Map.empty (STR ''2026-01-01T00:00:00'') (Some (Fin 5000000)) (Some NaN)
     (Some NaN) (Some NaN) None None None (STR ''rd_results.csv'') Map.empty
   = Inr ([], [STR ''rd_results.csv'' \<mapsto> [base_header,
       [Text (STR ''2026-01-01T00:00:00''), Num (Fin 5000000), Num NaN, Num NaN, Num NaN,
        Blank, Blank, Blank]]])"
  by (simp add: rd6_save_results_def append_rows_def linewidth_warnings_def opt_cell_def
      fgt_def Let_def)

section \<open>Properties of RD3\<close>

lemma trunc_ge_5: "5 < x \<Longrightarrow> 5 \<le> trunc x"
  by (simp add: trunc_def le_floor_iff)

lemma py_window_ge_5:
  "(if fgt h (Fin 5) then py_int h else Inr 5) = Inr M \<Longrightarrow> 5 \<le> M"
  by (cases h) (auto simp: fgt_def py_int_def trunc_ge_5 split: if_splits)

lemma rd3_window_ge_5: "rd3_window fs f0 = Inr M \<Longrightarrow> 5 \<le> M"
  unfolding rd3_window_def Let_def
  by (auto split: sum.splits dest: py_window_ge_5)

lemma rd3_window_total:
  assumes "f0 \<noteq> 0"
  shows "\<exists>M. rd3_window fs (Fin f0) = Inr M"
  using assms
  by (cases fs)
     (simp_all add: rd3_window_def py_truediv_def py_floordiv_def py_int_def fgt_def Let_def)

lemma rd3_window_10_1: "rd3_window (Fin 10) (Fin 1) = Inr 5"
  by (simp add: rd3_window_def py_truediv_def py_floordiv_def py_int_def fgt_def Let_def)

lemma rd3_window_2_1: "rd3_window (Fin 2) (Fin 1) = Inr 5"
  by (simp add: rd3_window_def py_truediv_def py_floordiv_def py_int_def fgt_def Let_def)

lemma replicate_5: "replicate 5 x = [x, x, x, x, x]"
  by (simp add: eval_nat_numeral)

lemma variance_ones_2: "variance [1, 1] = 0"
  by (simp add: variance_def mean_def)

text \<open>
  C8. The signal \<open>[1, -1]\<close> has mean zero and peak one. With a sample rate of 10 and a
  frequency of 1 the window is 5 samples, longer than the signal, so the convolution
  takes the kernel as its first operand and the envelope has five elements where the
  input has two.
\<close>

theorem rd3_short_signal_gives_longer_envelope:
  "rd3_envelope [1, -1] (Fin 10) (Fin 1)
   = Inr ([1 / 5, 2 / 5, 2 / 5, 2 / 5, 2 / 5], [Envelope_flat, Window_too_large])"
  by (simp add: rd3_envelope_def rd3_window_10_1 np_convolve_same_def correlate_same_def
      zext_def std_def variance_ones_2 upt_rec Let_def eval_nat_numeral)

text \<open>
  C10. For every sample rate and every finite non-zero frequency guess the window size is
  computed and is at least 5, and whenever the envelope is returned the warning for a
  window below 5 is not among its warnings.
\<close>

theorem rd3_window_at_least_5:
  assumes "f0 \<noteq> 0"
  shows "(\<exists>M. rd3_window fs (Fin f0) = Inr M \<and> 5 \<le> M)
     \<and> (\<forall>env ws. rd3_envelope x1 fs (Fin f0) = Inr (env, ws)
           \<longrightarrow> Window_very_small \<notin> set ws)"
proof
  show "\<exists>M. rd3_window fs (Fin f0) = Inr M \<and> 5 \<le> M"
    using rd3_window_total[OF assms] rd3_window_ge_5 by blast
  show "\<forall>env ws. rd3_envelope x1 fs (Fin f0) = Inr (env, ws)
          \<longrightarrow> Window_very_small \<notin> set ws"
    unfolding rd3_envelope_def Let_def
    by (auto split: sum.splits dest: rd3_window_ge_5)
qed

theorem rd3_window_at_least_5_witness:
  "(4995000::real) \<noteq> 0 \<and> (\<exists>M. rd3_window (Fin 125000000) (Fin 4995000) = Inr M \<and> 5 \<le> M)
   \<and> Window_very_small \<notin> set (snd (projr (rd3_envelope [1, -1] (Fin 10) (Fin 1))))"
proof -
  have "\<exists>M. rd3_window (Fin 125000000) (Fin 4995000) = Inr M \<and> 5 \<le> M"
    using rd3_window_at_least_5 [of 4995000 "Fin 125000000"] by simp
  moreover have "Window_very_small \<notin> set (snd (projr (rd3_envelope [1, -1] (Fin 10) (Fin 1))))"
    by (simp add: rd3_envelope_def rd3_window_10_1 np_convolve_same_def Let_def)
  ultimately show ?thesis by simp
qed

subsection \<open>The smoothing does not increase the mean square\<close>

lemma sum_list_upt_lessThan: "(\<Sum>k\<leftarrow>[0..<n]. f k) = (\<Sum>k<n. f k)"
  by (simp add: interv_sum_list_conv_sum_set_nat atLeast0LessThan)

lemma jensen_weighted:
  fixes w x :: "nat \<Rightarrow> real"
  assumes w: "\<And>k. k < n \<Longrightarrow> 0 \<le> w k" and s1: "(\<Sum>k<n. w k) \<le> 1"
  shows "(\<Sum>k<n. w k * x k)\<^sup>2 \<le> (\<Sum>k<n. w k * (x k)\<^sup>2)"
proof -
  define m where "m = (\<Sum>k<n. w k * x k)"
  define s where "s = (\<Sum>k<n. w k)"
  define q where "q = (\<Sum>k<n. w k * (x k)\<^sup>2)"
  have pt: "\<And>k. w k * (x k - m)\<^sup>2 = w k * (x k)\<^sup>2 - 2 * m * (w k * x k) + m\<^sup>2 * w k"
    by (simp add: power2_eq_square algebra_simps)
  have "0 \<le> (\<Sum>k<n. w k * (x k - m)\<^sup>2)"
    by (rule sum_nonneg) (simp add: w)
  also have "\<dots> = q - 2 * m * m + m\<^sup>2 * s"
    unfolding pt by (simp add: sum.distrib sum_subtractf sum_distrib_left q_def m_def s_def)
  finally have "m\<^sup>2 * (2 - s) \<le> q" by (simp add: power2_eq_square algebra_simps)
  moreover have "m\<^sup>2 * 1 \<le> m\<^sup>2 * (2 - s)"
    using s1 by (intro mult_left_mono) (simp_all add: s_def)
  ultimately show ?thesis unfolding m_def q_def by simp
qed

lemma zext_shift_sum:
  assumes nn: "\<And>j. j < length ys \<Longrightarrow> 0 \<le> ys ! j"
  shows "(\<Sum>k<n. zext ys (int k + d)) \<le> sum_list ys"
proof -
  let ?A = "{k. k < n \<and> 0 \<le> int k + d \<and> int k + d < int (length ys)}"
  let ?g = "\<lambda>k. nat (int k + d)"
  have "(\<Sum>k<n. zext ys (int k + d)) = (\<Sum>k\<in>?A. ys ! ?g k)"
    by (rule sum.mono_neutral_cong_right) (auto simp: zext_def)
  also have "\<dots> = (\<Sum>j\<in>?g ` ?A. ys ! j)"
  proof -
    have "inj_on ?g ?A" by (auto simp: inj_on_def)
    then show ?thesis by (simp add: sum.reindex)
  qed
  also have "\<dots> \<le> (\<Sum>j<length ys. ys ! j)"
    by (rule sum_mono2) (auto simp: nn)
  also have "\<dots> = sum_list ys"
    by (simp add: sum_list_sum_nth atLeast0LessThan)
  finally show ?thesis .
qed

lemma zext_map_sq: "zext (map (\<lambda>v. v\<^sup>2) xs) p = (zext xs p)\<^sup>2"
  by (simp add: zext_def nat_less_iff)

lemma sum_sq_correlate:
  "sum_list (map (\<lambda>v. v\<^sup>2) (correlate_same ap1 ap2))
   = (\<Sum>i<length ap1. (\<Sum>k<length ap2. zext ap1 (int i - int (length ap2 div 2) + int k) * ap2 ! k)\<^sup>2)"
  by (simp add: correlate_same_def comp_def sum_list_upt_lessThan)

lemma sum_sq_nonneg: "0 \<le> sum_list (map (\<lambda>v. v\<^sup>2) (xs::real list))"
  by (rule sum_list_nonneg) auto

lemma correlate_kernel_second:
  assumes nn: "\<And>k. k < length ap2 \<Longrightarrow> 0 \<le> ap2 ! k" and s1: "sum_list ap2 \<le> 1"
  shows "sum_list (map (\<lambda>v. v\<^sup>2) (correlate_same ap1 ap2)) \<le> sum_list (map (\<lambda>v. v\<^sup>2) ap1)"
proof -
  let ?n1 = "length ap1" and ?n2 = "length ap2"
  let ?h = "int (length ap2 div 2)"
  let ?S = "sum_list (map (\<lambda>v. v\<^sup>2) ap1)"
  let ?z = "\<lambda>i k. zext ap1 (int i - ?h + int k)"
  have sw: "(\<Sum>k<?n2. ap2 ! k) = sum_list ap2"
    by (simp add: sum_list_sum_nth atLeast0LessThan)
  have row: "(\<Sum>k<?n2. ?z i k * ap2 ! k)\<^sup>2 \<le> (\<Sum>k<?n2. ap2 ! k * (?z i k)\<^sup>2)" for i
  proof -
    have "(\<Sum>k<?n2. ap2 ! k * ?z i k)\<^sup>2 \<le> (\<Sum>k<?n2. ap2 ! k * (?z i k)\<^sup>2)"
      by (rule jensen_weighted) (simp_all add: nn sw s1)
    then show ?thesis by (simp add: mult.commute)
  qed
  have col: "(\<Sum>i<?n1. (?z i k)\<^sup>2) \<le> ?S" for k
  proof -
    have "(\<Sum>i<?n1. zext (map (\<lambda>v. v\<^sup>2) ap1) (int i + (int k - ?h))) \<le> ?S"
      by (rule zext_shift_sum) simp
    then show ?thesis by (simp add: zext_map_sq algebra_simps)
  qed
  have "sum_list (map (\<lambda>v. v\<^sup>2) (correlate_same ap1 ap2))
        \<le> (\<Sum>i<?n1. \<Sum>k<?n2. ap2 ! k * (?z i k)\<^sup>2)"
    unfolding sum_sq_correlate by (rule sum_mono) (rule row)
  also have "\<dots> = (\<Sum>k<?n2. ap2 ! k * (\<Sum>i<?n1. (?z i k)\<^sup>2))"
    by (subst sum.swap) (simp add: sum_distrib_left)
  also have "\<dots> \<le> (\<Sum>k<?n2. ap2 ! k * ?S)"
    by (rule sum_mono) (simp add: mult_left_mono nn col)
  also have "\<dots> = sum_list ap2 * ?S"
    by (simp add: sum_distrib_right[symmetric] sw)
  also have "\<dots> \<le> 1 * ?S"
    by (rule mult_right_mono) (simp_all add: s1 sum_sq_nonneg)
  finally show ?thesis by simp
qed

lemma correlate_kernel_first:
  assumes nn: "\<And>j. j < length ap1 \<Longrightarrow> 0 \<le> ap1 ! j" and s1: "sum_list ap1 \<le> 1"
  shows "sum_list (map (\<lambda>v. v\<^sup>2) (correlate_same ap1 ap2)) \<le> sum_list (map (\<lambda>v. v\<^sup>2) ap2)"
proof -
  let ?n1 = "length ap1" and ?n2 = "length ap2"
  let ?h = "int (length ap2 div 2)"
  let ?z = "\<lambda>i k. zext ap1 (int i - ?h + int k)"
  have znn: "0 \<le> ?z i k" for i k by (simp add: zext_def nn nat_less_iff)
  have rows: "(\<Sum>k<?n2. ?z i k) \<le> 1" for i
  proof -
    have "(\<Sum>k<?n2. zext ap1 (int k + (int i - ?h))) \<le> sum_list ap1"
      by (rule zext_shift_sum) (simp add: nn)
    then show ?thesis using s1 by (simp add: algebra_simps)
  qed
  have cols: "(\<Sum>i<?n1. ?z i k) \<le> 1" for k
  proof -
    have "(\<Sum>i<?n1. zext ap1 (int i + (int k - ?h))) \<le> sum_list ap1"
      by (rule zext_shift_sum) (simp add: nn)
    then show ?thesis using s1 by (simp add: algebra_simps)
  qed
  have row: "(\<Sum>k<?n2. ?z i k * ap2 ! k)\<^sup>2 \<le> (\<Sum>k<?n2. ?z i k * (ap2 ! k)\<^sup>2)" for i
    by (rule jensen_weighted) (simp_all add: znn rows)
  have "sum_list (map (\<lambda>v. v\<^sup>2) (correlate_same ap1 ap2))
        \<le> (\<Sum>i<?n1. \<Sum>k<?n2. ?z i k * (ap2 ! k)\<^sup>2)"
    unfolding sum_sq_correlate by (rule sum_mono) (rule row)
  also have "\<dots> = (\<Sum>k<?n2. (\<Sum>i<?n1. ?z i k) * (ap2 ! k)\<^sup>2)"
    by (subst sum.swap) (simp add: sum_distrib_right)
  also have "\<dots> \<le> (\<Sum>k<?n2. 1 * (ap2 ! k)\<^sup>2)"
    by (intro sum_mono mult_right_mono cols) simp
  also have "\<dots> = sum_list (map (\<lambda>v. v\<^sup>2) ap2)"
    by (simp add: sum_list_sum_nth atLeast0LessThan)
  finally show ?thesis .
qed

lemma length_correlate_same: "length (correlate_same ap1 ap2) = length ap1"
  by (simp add: correlate_same_def)

lemma sum_sq_rev: "sum_list (map (\<lambda>v. v\<^sup>2) (rev xs)) = sum_list (map (\<lambda>v. v\<^sup>2) (xs::real list))"
  by (simp add: rev_map[symmetric] sum_list_rev)

lemma np_convolve_energy:
  assumes conv: "np_convolve_same a ker = Inr env"
    and nn: "\<And>k. k < length ker \<Longrightarrow> 0 \<le> ker ! k" and s1: "sum_list ker \<le> 1"
  shows "sum_list (map (\<lambda>v. v\<^sup>2) env) \<le> sum_list (map (\<lambda>v. v\<^sup>2) a)
         \<and> length a \<le> length env \<and> a \<noteq> []"
proof (cases "length ker > length a")
  case True
  with conv have e: "env = correlate_same ker (rev a)" and ne: "a \<noteq> []"
    by (auto simp: np_convolve_same_def split: if_splits)
  have "sum_list (map (\<lambda>v. v\<^sup>2) env) \<le> sum_list (map (\<lambda>v. v\<^sup>2) (rev a))"
    unfolding e by (rule correlate_kernel_first) (simp_all add: nn s1)
  then show ?thesis using True ne by (simp add: sum_sq_rev e length_correlate_same)
next
  case False
  with conv have e: "env = correlate_same a (rev ker)" and ne: "a \<noteq> []"
    by (auto simp: np_convolve_same_def split: if_splits)
  have "sum_list (map (\<lambda>v. v\<^sup>2) env) \<le> sum_list (map (\<lambda>v. v\<^sup>2) a)"
    unfolding e
  proof (rule correlate_kernel_second)
    show "0 \<le> rev ker ! k" if "k < length (rev ker)" for k
      using that by (simp add: rev_nth nn)
    show "sum_list (rev ker) \<le> 1" using s1 by (simp add: sum_list_rev)
  qed
  then show ?thesis using ne by (simp add: e length_correlate_same)
qed

lemma mean_square_le:
  assumes "sum_list (map (\<lambda>v. v\<^sup>2) ys) \<le> sum_list (map (\<lambda>v. v\<^sup>2) xs)"
    and "length xs \<le> length ys" and "xs \<noteq> []"
  shows "mean_square ys \<le> mean_square xs"
proof -
  have "0 \<le> sum_list (map (\<lambda>v. v\<^sup>2) ys)" by (rule sum_sq_nonneg)
  moreover have "0 < real (length xs)" using assms(3) by simp
  moreover have "real (length xs) \<le> real (length ys)" using assms(2) by simp
  ultimately show ?thesis
    unfolding mean_square_def mean_def using assms(1) by (simp add: frac_le)
qed

lemma variance_ones_6: "variance [1, 1, 1, 1, 1, 1] = 0"
  by (simp add: variance_def mean_def)

lemma variance_edges_6: "variance [3 / 5, 4 / 5, 1, 1, 4 / 5, 3 / 5] = 2 / 75"
  by (simp add: variance_def mean_def power2_eq_square)

lemma correlate_ones_6:
  "correlate_same [1, 1, 1, 1, 1, 1] [1 / 5, 1 / 5, 1 / 5, 1 / 5, 1 / 5]
   = [3 / 5, 4 / 5, 1, 1, 4 / 5, 3 / 5]"
  by (simp add: correlate_same_def zext_def upt_rec)

lemma rd3_envelope_alternating_6:
  "rd3_envelope [1, -1, 1, -1, 1, -1] (Fin 2) (Fin 1)
   = Inr ([3 / 5, 4 / 5, 1, 1, 4 / 5, 3 / 5], [Envelope_flat, Window_too_large])"
  by (simp add: rd3_envelope_def rd3_window_2_1 np_convolve_same_def replicate_5
      correlate_ones_6 std_def variance_ones_6 Let_def)

text \<open>
  C4, as stated, fails. The alternating signal \<open>[1, -1, 1, -1, 1, -1]\<close> has mean zero
  and peak one; its rectified form is constant, with variance zero. With a sample rate
  of 2 and a frequency of 1 the window is 5 samples, the zero padding of the convolution
  lowers the samples at both ends, and the envelope has variance 2/75.
\<close>

theorem rd3_envelope_variance_counterexample:
  "rd3_envelope [1, -1, 1, -1, 1, -1] (Fin 2) (Fin 1)
     = Inr ([3 / 5, 4 / 5, 1, 1, 4 / 5, 3 / 5], [Envelope_flat, Window_too_large])
   \<and> \<not> variance [3 / 5, 4 / 5, 1, 1, 4 / 5, 3 / 5]
         \<le> variance (map abs [1, -1, 1, -1, 1, -1])"
  by (simp add: rd3_envelope_alternating_6 variance_ones_6 variance_edges_6)

text \<open>
  C4, amended. Whenever the envelope is returned, the mean of its squares is at most the
  mean of the squares of the rectified input.
\<close>

theorem rd3_envelope_mean_square_bounded:
  assumes "rd3_envelope x1 fs f0 = Inr (env, ws)"
  shows "mean_square env \<le> mean_square (map abs x1)"
proof -
  from assms obtain M where M: "rd3_window fs f0 = Inr M"
    and conv: "np_convolve_same (map abs x1) (replicate (nat M) (1 / real_of_int M)) = Inr env"
    by (auto simp: rd3_envelope_def Let_def split: sum.splits)
  have M5: "5 \<le> M" using M by (rule rd3_window_ge_5)
  have s1: "sum_list (replicate (nat M) (1 / real_of_int M)) \<le> 1"
    using M5 by (simp add: sum_list_replicate)
  have nn: "0 \<le> replicate (nat M) (1 / real_of_int M) ! k"
    if "k < length (replicate (nat M) (1 / real_of_int M))" for k
    using that M5 by simp
  from np_convolve_energy[OF conv nn s1]
  show ?thesis by (intro mean_square_le) simp_all
qed


theorem rd3_envelope_mean_square_bounded_witness:
  "rd3_envelope [1, -1, 1, -1, 1, -1] (Fin 2) (Fin 1)
     = Inr ([3 / 5, 4 / 5, 1, 1, 4 / 5, 3 / 5], [Envelope_flat, Window_too_large])
   \<and> mean_square [3 / 5, 4 / 5, 1, 1, 4 / 5, 3 / 5]
       \<le> mean_square (map abs [1, -1, 1, -1, 1, -1])"
  using rd3_envelope_mean_square_bounded [OF rd3_envelope_alternating_6]
  by (simp add: rd3_envelope_alternating_6)

section \<open>Properties of RD4\<close>

text \<open>
  C3. On an envelope of four zeros, with a sample rate and frequency of 1 and the default
  guard of 3 periods and drop fraction of 0.1, the fit starts at index 3, the envelope
  there is already at or below the threshold, the fit window is empty, and the read of
  its first time stamp raises IndexError.
\<close>

theorem rd4_zero_envelope_raises:
  "rd4_fit_decay degenerate [0, 0, 0, 0] (Fin 1) (Fin 1) 3 (1 / 10) = Inl IndexError"
  by (simp add: rd4_fit_decay_def rd4_choose_window_def rd4_log_linear_fit_def
      py_truediv_def py_int_def trunc_def py_index_def py_slice_from_def py_slice_def
      slice_bound_def Let_def)

subsection \<open>The fit window and the decay constant\<close>

lemma trunc_pos: "0 \<le> r \<Longrightarrow> trunc r = \<lfloor>r\<rfloor>"
  by (simp add: trunc_def)

lemma first_below_takeWhile:
  "first_below thr xs =
     (if \<exists>v\<in>set xs. v \<le> thr then Some (length (takeWhile (\<lambda>v. \<not> v \<le> thr) xs)) else None)"
  by (induction xs) auto

lemma slice_bound_nonneg: "0 \<le> i \<Longrightarrow> slice_bound n i = min n (nat i)"
  by (simp add: slice_bound_def)




lemma spec_i0_bounds:
  assumes "0 < fs" "0 < f0" "0 \<le> guard" "env \<noteq> []"
  shows "0 \<le> spec_i0 env fs f0 guard \<and> spec_i0 env fs f0 guard < int (length env)"
proof -
  have "0 \<le> \<lfloor>fs / f0\<rfloor>" using assms by simp
  then have "0 \<le> guard * \<lfloor>fs / f0\<rfloor>" using assms(3) by simp
  then show ?thesis using assms(4) by (auto simp: spec_i0_def Let_def)
qed


lemma rd4_choose_window_spec:
  assumes "0 < fs" "0 < f0" "0 \<le> guard" "env \<noteq> []"
  shows "rd4_choose_window env (Fin fs) (Fin f0) guard d
       = Inr (spec_i0 env fs f0 guard, spec_i1 env (spec_i0 env fs f0 guard) d,
              if int (length env) \<le> guard * \<lfloor>fs / f0\<rfloor> then [Guard_too_large] else [])"
proof -
  let ?i0 = "spec_i0 env fs f0 guard"
  have b: "0 \<le> ?i0" "?i0 < int (length env)"
    using spec_i0_bounds[OF assms] by auto
  have i0: "(if int (length env) \<le> guard * \<lfloor>fs / f0\<rfloor> then 0 else guard * \<lfloor>fs / f0\<rfloor>) = ?i0"
    by (simp add: spec_i0_def Let_def)
  have idx: "py_index env ?i0 = Inr (env ! nat ?i0)"
    using b by (simp add: py_index_def)
  have rest: "py_slice_from env ?i0 = drop (nat ?i0) env"
    using b by (simp add: py_slice_from_def slice_bound_nonneg)
  have i1: "(case first_below (env ! nat ?i0 * d) (drop (nat ?i0) env) of
               Some k \<Rightarrow> ?i0 + int k | None \<Rightarrow> int (length env)) = spec_i1 env ?i0 d"
    by (simp add: first_below_takeWhile spec_i1_def Let_def)
  show ?thesis
  proof (cases "int (length env) \<le> guard * \<lfloor>fs / f0\<rfloor>")
    case True
    then have e: "?i0 = 0" by (simp add: spec_i0_def)
    show ?thesis
      using assms(1,2,4) True idx rest i1 unfolding e
      by (simp add: rd4_choose_window_def py_truediv_def py_int_def trunc_pos Let_def)
  next
    case False
    then have e: "?i0 = guard * \<lfloor>fs / f0\<rfloor>" by (simp add: spec_i0_def)
    show ?thesis
      using assms(1,2,4) False idx rest i1 unfolding e
      by (simp add: rd4_choose_window_def py_truediv_def py_int_def trunc_pos Let_def)
  qed
qed





















section \<open>What the validations, the envelope and the fit window do guarantee\<close>

text \<open>
  The cases in which the stages behave as their descriptions say: RD7 and RD6 reject the
  values their guards test for, RD6 appends exactly one record otherwise (with the header
  first when the file is new), the envelope is non-negative and as long as the longer of
  the signal and the window, and the fit raises whenever the envelope at the start of the
  window is not positive.
\<close>

lemma rd7_rejects_non_positive_tau:
  "x \<le> 0 \<Longrightarrow> rd7_damping_linewidth (Some (Fin x)) f0 q = rd7_invalid Tau_non_positive Check_RD4_fit"
  by (simp add: rd7_damping_linewidth_def)

lemma rd7_rejects_non_positive_f0:
  "0 < x \<Longrightarrow> y \<le> 0 \<Longrightarrow>
   rd7_damping_linewidth (Some (Fin x)) (Some (Fin y)) q = rd7_invalid F0_invalid Check_RD5_crossings"
  by (simp add: rd7_damping_linewidth_def)

lemma rd7_rejects_non_positive_Q:
  "0 < x \<Longrightarrow> 0 < y \<Longrightarrow> z \<le> 0 \<Longrightarrow>
   rd7_damping_linewidth (Some (Fin x)) (Some (Fin y)) (Some (Fin z)) = rd7_invalid Q_invalid Check_RD4_and_RD5"
  by (simp add: rd7_damping_linewidth_def)

lemma rd6_rejects_nan_f0:
  "f0 = None \<or> f0 = Some NaN \<Longrightarrow>
   rd6_save_results fsys now f0 tau q e a dt dq path extras = Inr ([F0_is_NaN], fsys)"
  by (auto simp: rd6_save_results_def)

lemma rd6_rejects_non_positive_tau:
  "\<not> is_nan f0 \<Longrightarrow> x \<le> 0 \<Longrightarrow>
   rd6_save_results fsys now (Some f0) (Some (Fin x)) q e a dt dq path extras = Inr ([Tau_not_valid], fsys)"
  by (simp add: rd6_save_results_def)

lemma rd6_rejects_non_positive_Q:
  "\<not> is_nan f0 \<Longrightarrow> 0 < x \<Longrightarrow> y \<le> 0 \<Longrightarrow>
   rd6_save_results fsys now (Some f0) (Some (Fin x)) (Some (Fin y)) e a dt dq path extras
     = Inr ([Q_not_valid], fsys)"
  by (simp add: rd6_save_results_def)

lemma rd6_appends_one_record:
  assumes "\<not> is_nan f0" "0 < x" "0 < y"
  shows "\<exists>ws fsys'. rd6_save_results fsys now (Some f0) (Some (Fin x)) (Some (Fin y)) (Some e)
            a dt dq path extras = Inr (ws, fsys')
          \<and> (\<exists>header row. fsys' path
                = Some (case fsys path of None \<Rightarrow> [header, row] | Some old \<Rightarrow> old @ [row]))
          \<and> (\<forall>p. p \<noteq> path \<longrightarrow> fsys' p = fsys p)"
  using assms
  by (cases "fsys path") (auto simp: rd6_save_results_def append_rows_def Let_def)

lemma rd3_envelope_length:
  assumes "rd3_envelope x1 fs f0 = Inr (env, ws)" "rd3_window fs f0 = Inr M"
  shows "length env = max (length x1) (nat M)"
  using assms
  by (auto simp: rd3_envelope_def np_convolve_same_def correlate_same_def Let_def
      split: sum.splits if_splits)

lemma correlate_same_nonneg:
  assumes "\<And>j. j < length ap1 \<Longrightarrow> 0 \<le> ap1 ! j" "\<And>k. k < length ap2 \<Longrightarrow> 0 \<le> ap2 ! k"
  shows "\<forall>v\<in>set (correlate_same ap1 ap2). 0 \<le> v"
  using assms
  by (auto simp: correlate_same_def zext_def nat_less_iff intro!: sum_list_nonneg)

lemma rd3_envelope_nonneg:
  assumes "rd3_envelope x1 fs f0 = Inr (env, ws)"
  shows "\<forall>v\<in>set env. 0 \<le> v"
proof -
  from assms obtain M where M: "rd3_window fs f0 = Inr M"
    and conv: "np_convolve_same (map abs x1) (replicate (nat M) (1 / real_of_int M)) = Inr env"
    by (auto simp: rd3_envelope_def Let_def split: sum.splits)
  have M5: "5 \<le> M" using M by (rule rd3_window_ge_5)
  have "env = correlate_same (replicate (nat M) (1 / real_of_int M)) (rev (map abs x1))
      \<or> env = correlate_same (map abs x1) (rev (replicate (nat M) (1 / real_of_int M)))"
    using conv by (auto simp: np_convolve_same_def split: if_splits)
  then show ?thesis
  proof
    assume e: "env = correlate_same (replicate (nat M) (1 / real_of_int M)) (rev (map abs x1))"
    show ?thesis unfolding e using M5
      by (intro correlate_same_nonneg) (simp_all add: rev_nth)
  next
    assume e: "env = correlate_same (map abs x1) (rev (replicate (nat M) (1 / real_of_int M)))"
    show ?thesis unfolding e using M5
      by (intro correlate_same_nonneg) simp_all
  qed
qed

lemma spec_i1_empty_window:
  assumes "0 \<le> i0" "i0 < int (length env)" "env ! nat i0 \<le> 0" "d < 1"
  shows "spec_i1 env i0 d = i0"
proof -
  obtain v vs where r: "drop (nat i0) env = v # vs" and v: "v = env ! nat i0"
    using assms(1,2) by (metis Cons_nth_drop_Suc nat_less_iff)
  have "env ! nat i0 * 1 \<le> env ! nat i0 * d"
    using assms(3,4) by (intro mult_left_mono_neg) simp_all
  then have "v \<le> env ! nat i0 * d" using v by simp
  then show ?thesis by (simp add: spec_i1_def r Let_def)
qed

lemma rd4_empty_window_raises:
  assumes "0 < fs" "0 < f0" "0 \<le> guard" "env \<noteq> []" "d < 1"
    and "env ! nat (spec_i0 env fs f0 guard) \<le> 0"
  shows "rd4_fit_decay deg env (Fin fs) (Fin f0) guard d = Inl IndexError"
proof -
  let ?i0 = "spec_i0 env fs f0 guard"
  have i0: "0 \<le> ?i0" "?i0 < int (length env)"
    using spec_i0_bounds[OF assms(1-4)] by auto
  have i1: "spec_i1 env ?i0 d = ?i0"
    by (rule spec_i1_empty_window[OF i0 assms(6,5)])
  have "py_slice (map (\<lambda>k. fdiv (Fin (real k)) (Fin fs)) [0..<length env]) ?i0 ?i0 = []"
    by (simp add: py_slice_def)
  then show ?thesis
    by (simp add: rd4_fit_decay_def rd4_choose_window_spec[OF assms(1-4)] i1
        rd4_log_linear_fit_def Let_def)
qed

end
